theory Spec2Isabelle
  imports Main
begin

section \<open>The cache-aside repository of \<^verbatim>\<open>cache/gorm_cache.go\<close>\<close>

text \<open>
  \<^verbatim>\<open>GormCacheRepository[T any, ID comparable]\<close> is generic: the entity type \<open>'e\<close> and the
  identifier type \<open>'id\<close> stay type variables.  A \<^verbatim>\<open>*T\<close> is modelled by the entity value
  it points to at the time of the call.  Every operation takes the state of the world (cache
  table, database, clock, event trace) and returns its Go result together with the new state.
\<close>

subsection \<open>Errors\<close>

text \<open>
  \<^verbatim>\<open>gorm.ErrRecordNotFound\<close> and every other error value a query can carry.
\<close>

datatype gorm_error = ErrRecordNotFound | ErrOther string

text \<open>\<^verbatim>\<open>errors.Is(query.Error, gorm.ErrRecordNotFound)\<close>, on unwrapped error values.\<close>

definition errors_Is :: "gorm_error \<Rightarrow> gorm_error \<Rightarrow> bool" where
  "errors_Is err target = (err = target)"

text \<open>
  How a call that returns \<^verbatim>\<open>(value, error)\<close> can end without a value: it returns a non-nil
  error, or a type assertion \<^verbatim>\<open>x.(*T)\<close> / \<^verbatim>\<open>x.([]*T)\<close> on a value of another dynamic
  type panics.
\<close>

datatype failure = Err gorm_error | Panic

subsection \<open>Configuration (\<^verbatim>\<open>cache/repository.go\<close>)\<close>

record CacheConfig =
  TableName :: string
  Expiration :: int
  UseNotFoundCache :: bool

text \<open>
  The immutable fields of the repository struct.  Its \<^verbatim>\<open>db\<close> and \<^verbatim>\<open>cacheTable\<close> fields are
  pointers to mutable objects, which live in the world state below; the \<^verbatim>\<open>instance\<close> pool
  is never used by any method.
\<close>

record GormCacheRepository =
  config :: CacheConfig
  primaryKey :: string

subsection \<open>What a cache slot holds\<close>

text \<open>
  The dynamic types the repository stores in a slot of type \<^verbatim>\<open>interface{}\<close>: the marker
  \<^verbatim>\<open>NotFound{}\<close>, one entity \<^verbatim>\<open>*T\<close>, or the slice \<^verbatim>\<open>[]*T\<close> of the full collection.
\<close>

datatype 'e cache_data = NotFound | Entity 'e | Entities "'e list"

subsection \<open>The cache store\<close>

text \<open>
  Modelled from the spec: the cache table type and its methods \<^verbatim>\<open>Value\<close>, \<^verbatim>\<open>Add\<close>,
  \<^verbatim>\<open>Delete\<close> and \<^verbatim>\<open>Flush\<close> are not among the source files.  The spec (4.1) gives the
  contract \<open>get(key) -> Entry | miss\<close>, \<open>set(key, ttl, entry)\<close>, \<open>delete(key)\<close>,
  \<open>flushAll()\<close>: at most one entry per key, last write wins; an entry carries the expiry
  deadline fixed at insertion; a TTL of zero never expires, a positive TTL makes the entry
  logically absent once that duration has elapsed since insertion.
\<close>

record 'e CacheItem =
  data :: "'e cache_data"
  lifeSpan :: int
  createdOn :: int

type_synonym 'e CacheTable = "string \<Rightarrow> 'e CacheItem option"

text \<open>
  Modelled from the spec: an entry is live at time \<open>t\<close> when its deadline has not passed.
  The spec gives a deadline to a positive TTL only, so an entry with any other TTL stays
  live; it says a lookup before the duration has elapsed is a hit and one after it is a miss,
  and the instant of the deadline itself is taken as a miss here.
\<close>

definition live :: "int \<Rightarrow> 'e CacheItem \<Rightarrow> bool" where
  "live t it = (lifeSpan it \<le> 0 \<or> t < createdOn it + lifeSpan it)"

text \<open>Modelled from the spec: \<open>get(key)\<close>; an expired entry is a miss.\<close>

definition cache_Value :: "'e CacheTable \<Rightarrow> int \<Rightarrow> string \<Rightarrow> 'e CacheItem option" where
  "cache_Value tbl t key =
     (case tbl key of
        None \<Rightarrow> None
      | Some it \<Rightarrow> if live t it then Some it else None)"

text \<open>Modelled from the spec: \<open>set(key, ttl, entry)\<close> at time \<open>t\<close>.\<close>

definition cache_Add :: "'e CacheTable \<Rightarrow> int \<Rightarrow> string \<Rightarrow> int \<Rightarrow> 'e cache_data \<Rightarrow> 'e CacheTable" where
  "cache_Add tbl t key ttl d = tbl(key \<mapsto> \<lparr>data = d, lifeSpan = ttl, createdOn = t\<rparr>)"

text \<open>Modelled from the spec: \<open>delete(key)\<close>.\<close>

definition cache_Delete :: "'e CacheTable \<Rightarrow> string \<Rightarrow> 'e CacheTable" where
  "cache_Delete tbl key = tbl(key := None)"

text \<open>Modelled from the spec: \<open>flushAll()\<close>.\<close>

definition cache_Flush :: "'e CacheTable \<Rightarrow> 'e CacheTable" where
  "cache_Flush tbl = Map.empty"

subsection \<open>The libraries the repository calls\<close>

text \<open>
  \<^verbatim>\<open>fmt\<close> and \<^verbatim>\<open>gorm\<close> are external: their behaviour is a parameter of every operation.
  \<open>Sprintf_v\<close> is \<^verbatim>\<open>fmt.Sprintf("%v", id)\<close> at the identifier type.  Each query takes the
  database state and returns what \<^verbatim>\<open>query.Error\<close> and the destination hold afterwards,
  with the new database state; \<^verbatim>\<open>Save\<close> also returns the entity as the database left it
  (generated key, timestamps).  The string argument is the \<^verbatim>\<open>Where\<close> condition.
\<close>

record ('e, 'id, 'db) libs =
  Sprintf_v :: "'id \<Rightarrow> string"
  gorm_First :: "string \<Rightarrow> 'id \<Rightarrow> 'db \<Rightarrow> (gorm_error + 'e) \<times> 'db"
  gorm_Find :: "'db \<Rightarrow> (gorm_error + 'e list) \<times> 'db"
  gorm_Find_in :: "string \<Rightarrow> 'id list \<Rightarrow> 'db \<Rightarrow> (gorm_error + 'e list) \<times> 'db"
  gorm_Save :: "'e \<Rightarrow> 'db \<Rightarrow> (gorm_error option \<times> 'e) \<times> 'db"
  gorm_Delete :: "string \<Rightarrow> 'id \<Rightarrow> 'db \<Rightarrow> gorm_error option \<times> 'db"

subsection \<open>World state and event trace\<close>

text \<open>
  The trace is a ghost field: it records, in order, every database call the repository makes
  (with its outcome) and every mutation of the cache table.  It is what a call counter on
  the store adapter would observe.
\<close>

datatype ('e, 'id) event =
    DBFirst 'id "gorm_error + 'e"
  | DBFind "gorm_error + 'e list"
  | DBFindIn "'id list" "gorm_error + 'e list"
  | DBSave 'e "gorm_error option"
  | DBDelete 'id "gorm_error option"
  | CacheAdd string int "'e cache_data"
  | CacheDelete string
  | CacheFlush

record ('e, 'id, 'db) world =
  cacheTable :: "'e CacheTable"
  db :: 'db
  clock :: int
  trace :: "('e, 'id) event list"

fun is_store_call :: "('e, 'id) event \<Rightarrow> bool" where
  "is_store_call (CacheAdd k ttl d) = False"
| "is_store_call (CacheDelete k) = False"
| "is_store_call CacheFlush = False"
| "is_store_call ev = True"

definition store_calls :: "('e, 'id) event list \<Rightarrow> ('e, 'id) event list" where
  "store_calls tr = filter is_store_call tr"

definition is_cache_mutation :: "('e, 'id) event \<Rightarrow> bool" where
  "is_cache_mutation ev = (\<not> is_store_call ev)"

text \<open>Time passing between two calls.\<close>

definition advance :: "int \<Rightarrow> ('e, 'id, 'db) world \<Rightarrow> ('e, 'id, 'db) world" where
  "advance d s = s\<lparr>clock := clock s + d\<rparr>"

text \<open>\<^verbatim>\<open>r.cacheTable.Value\<close>, \<^verbatim>\<open>.Add\<close>, \<^verbatim>\<open>.Delete\<close>, \<^verbatim>\<open>.Flush\<close> on the world.\<close>

definition table_Value :: "('e, 'id, 'db) world \<Rightarrow> string \<Rightarrow> 'e CacheItem option" where
  "table_Value s key = cache_Value (cacheTable s) (clock s) key"

definition table_Add :: "string \<Rightarrow> int \<Rightarrow> 'e cache_data \<Rightarrow> ('e, 'id, 'db) world \<Rightarrow> ('e, 'id, 'db) world" where
  "table_Add key ttl d s =
     s\<lparr>cacheTable := cache_Add (cacheTable s) (clock s) key ttl d,
       trace := trace s @ [CacheAdd key ttl d]\<rparr>"

definition table_Delete :: "string \<Rightarrow> ('e, 'id, 'db) world \<Rightarrow> ('e, 'id, 'db) world" where
  "table_Delete key s =
     s\<lparr>cacheTable := cache_Delete (cacheTable s) key,
       trace := trace s @ [CacheDelete key]\<rparr>"

definition table_Flush :: "('e, 'id, 'db) world \<Rightarrow> ('e, 'id, 'db) world" where
  "table_Flush s =
     s\<lparr>cacheTable := cache_Flush (cacheTable s),
       trace := trace s @ [CacheFlush]\<rparr>"

text \<open>A database call: the new database state and the logged event.\<close>

definition db_called :: "'db \<Rightarrow> ('e, 'id) event \<Rightarrow> ('e, 'id, 'db) world \<Rightarrow> ('e, 'id, 'db) world" where
  "db_called db' ev s = s\<lparr>db := db', trace := trace s @ [ev]\<rparr>"

subsection \<open>Key builder\<close>

text \<open>\<^verbatim>\<open>buildCacheKey\<close>: \<^verbatim>\<open>fmt.Sprintf("%v", id)\<close>.\<close>

definition buildCacheKey :: "('e, 'id, 'db) libs \<Rightarrow> 'id \<Rightarrow> string" where
  "buildCacheKey g ident = Sprintf_v g ident"

text \<open>\<^verbatim>\<open>buildCacheKeyFromEntity\<close>: the body is \<^verbatim>\<open>return ""\<close>.\<close>

definition buildCacheKeyFromEntity :: "'e \<Rightarrow> string" where
  "buildCacheKeyFromEntity entity = ''''"

text \<open>The \<^verbatim>\<open>Where\<close> conditions \<^verbatim>\<open>fmt.Sprintf("%s = ?", r.primaryKey)\<close> and \<^verbatim>\<open>"%s IN ?"\<close>.\<close>

definition where_eq :: "GormCacheRepository \<Rightarrow> string" where
  "where_eq r = primaryKey r @ '' = ?''"

definition where_in :: "GormCacheRepository \<Rightarrow> string" where
  "where_in r = primaryKey r @ '' IN ?''"

subsection \<open>Repository operations\<close>

definition GetByID ::
  "('e, 'id, 'db) libs \<Rightarrow> GormCacheRepository \<Rightarrow> 'id \<Rightarrow> ('e, 'id, 'db) world
     \<Rightarrow> (failure + 'e) \<times> ('e, 'id, 'db) world" where
  "GetByID g r ident s =
     (let cacheKey = buildCacheKey g ident in
      case table_Value s cacheKey of
        Some cachedData \<Rightarrow>
          (case data cachedData of
             NotFound \<Rightarrow> (Inl (Err ErrRecordNotFound), s)
           | Entity e \<Rightarrow> (Inr e, s)
           | Entities es \<Rightarrow> (Inl Panic, s))
      | None \<Rightarrow>
          (case gorm_First g (where_eq r) ident (db s) of
             (query, db') \<Rightarrow>
               (let s1 = db_called db' (DBFirst ident query) s in
                case query of
                  Inl err \<Rightarrow>
                    (Inl (Err err),
                     if UseNotFoundCache (config r) \<and> errors_Is err ErrRecordNotFound
                     then table_Add cacheKey (Expiration (config r)) NotFound s1
                     else s1)
                | Inr entity \<Rightarrow>
                    (Inr entity, table_Add cacheKey (Expiration (config r)) (Entity entity) s1))))"

definition GetAll ::
  "('e, 'id, 'db) libs \<Rightarrow> GormCacheRepository \<Rightarrow> ('e, 'id, 'db) world
     \<Rightarrow> (failure + 'e list) \<times> ('e, 'id, 'db) world" where
  "GetAll g r s =
     (let cacheKey = ''all'' in
      case table_Value s cacheKey of
        Some cachedData \<Rightarrow>
          (case data cachedData of
             Entities es \<Rightarrow> (Inr es, s)
           | NotFound \<Rightarrow> (Inl Panic, s)
           | Entity e \<Rightarrow> (Inl Panic, s))
      | None \<Rightarrow>
          (case gorm_Find g (db s) of
             (query, db') \<Rightarrow>
               (let s1 = db_called db' (DBFind query) s in
                case query of
                  Inl err \<Rightarrow> (Inl (Err err), s1)
                | Inr entities \<Rightarrow>
                    (Inr entities, table_Add cacheKey (Expiration (config r)) (Entities entities) s1))))"

definition Save ::
  "('e, 'id, 'db) libs \<Rightarrow> GormCacheRepository \<Rightarrow> 'e \<Rightarrow> ('e, 'id, 'db) world
     \<Rightarrow> gorm_error option \<times> ('e, 'id, 'db) world" where
  "Save g r entity s =
     (case gorm_Save g entity (db s) of
        ((query, entity'), db') \<Rightarrow>
          (let s1 = db_called db' (DBSave entity query) s in
           case query of
             Some err \<Rightarrow> (Some err, s1)
           | None \<Rightarrow>
               (let cacheKey = buildCacheKeyFromEntity entity';
                    s2 = table_Add cacheKey (Expiration (config r)) (Entity entity') s1;
                    s3 = table_Delete ''all'' s2
                in (None, s3))))"

definition Delete ::
  "('e, 'id, 'db) libs \<Rightarrow> GormCacheRepository \<Rightarrow> 'id \<Rightarrow> ('e, 'id, 'db) world
     \<Rightarrow> gorm_error option \<times> ('e, 'id, 'db) world" where
  "Delete g r ident s =
     (case gorm_Delete g (where_eq r) ident (db s) of
        (query, db') \<Rightarrow>
          (let s1 = db_called db' (DBDelete ident query) s in
           case query of
             Some err \<Rightarrow> (Some err, s1)
           | None \<Rightarrow>
               (let cacheKey = buildCacheKey g ident;
                    s2 = table_Delete cacheKey s1;
                    s3 = table_Delete ''all'' s2
                in (None, s3))))"

definition ClearCache ::
  "('e, 'id, 'db) libs \<Rightarrow> GormCacheRepository \<Rightarrow> 'id \<Rightarrow> ('e, 'id, 'db) world
     \<Rightarrow> gorm_error option \<times> ('e, 'id, 'db) world" where
  "ClearCache g r ident s =
     (let cacheKey = buildCacheKey g ident in (None, table_Delete cacheKey s))"

definition ClearAllCache ::
  "('e, 'id, 'db) libs \<Rightarrow> GormCacheRepository \<Rightarrow> ('e, 'id, 'db) world
     \<Rightarrow> gorm_error option \<times> ('e, 'id, 'db) world" where
  "ClearAllCache g r s = (None, table_Flush s)"

text \<open>
  The first loop of \<^verbatim>\<open>BatchGet\<close>: \<open>result\<close> and \<open>uncachedIDs\<close> are the loop's two
  accumulators; \<open>None\<close> is the panic of \<^verbatim>\<open>cachedData.Data().(*T)\<close> on a slot holding
  neither the marker nor an entity.
\<close>

fun batch_lookup ::
  "('e, 'id, 'db) libs \<Rightarrow> ('e, 'id, 'db) world \<Rightarrow> 'id list \<Rightarrow> ('id \<Rightarrow> 'e option) \<Rightarrow> 'id list
     \<Rightarrow> (('id \<Rightarrow> 'e option) \<times> 'id list) option" where
  "batch_lookup g s [] result uncachedIDs = Some (result, uncachedIDs)"
| "batch_lookup g s (ident # ids) result uncachedIDs =
     (case table_Value s (buildCacheKey g ident) of
        Some cachedData \<Rightarrow>
          (case data cachedData of
             NotFound \<Rightarrow> batch_lookup g s ids result uncachedIDs
           | Entity e \<Rightarrow> batch_lookup g s ids (result(ident \<mapsto> e)) uncachedIDs
           | Entities es \<Rightarrow> None)
      | None \<Rightarrow> batch_lookup g s ids result (uncachedIDs @ [ident]))"

text \<open>The second loop of \<^verbatim>\<open>BatchGet\<close>: each fetched entity is added to the cache table.\<close>

fun batch_store ::
  "GormCacheRepository \<Rightarrow> 'e list \<Rightarrow> ('e, 'id, 'db) world \<Rightarrow> ('e, 'id, 'db) world" where
  "batch_store r [] s = s"
| "batch_store r (entity # entities) s =
     batch_store r entities
       (table_Add (buildCacheKeyFromEntity entity) (Expiration (config r)) (Entity entity) s)"

definition BatchGet ::
  "('e, 'id, 'db) libs \<Rightarrow> GormCacheRepository \<Rightarrow> 'id list \<Rightarrow> ('e, 'id, 'db) world
     \<Rightarrow> (failure + ('id \<Rightarrow> 'e option)) \<times> ('e, 'id, 'db) world" where
  "BatchGet g r ids s =
     (case batch_lookup g s ids Map.empty [] of
        None \<Rightarrow> (Inl Panic, s)
      | Some (result, uncachedIDs) \<Rightarrow>
          if length uncachedIDs > 0 then
            (case gorm_Find_in g (where_in r) uncachedIDs (db s) of
               (query, db') \<Rightarrow>
                 (let s1 = db_called db' (DBFindIn uncachedIDs query) s in
                  case query of
                    Inl err \<Rightarrow> (Inl (Err err), s1)
                  | Inr entities \<Rightarrow> (Inr result, batch_store r entities s1)))
          else (Inr result, s))"

subsection \<open>The instantiation of \<^verbatim>\<open>examples/\<close>\<close>

text \<open>
  \<^verbatim>\<open>UserCacheRepository\<close> embeds \<^verbatim>\<open>GormCacheRepository[User, uint]\<close>.  Identifiers of
  type \<^verbatim>\<open>uint\<close> are natural numbers here: the repository does no arithmetic on them.
\<close>

record User =
  ID :: nat
  Username :: string
  Email :: string
  Age :: int
  Active :: bool
  CreatedAt :: int
  UpdatedAt :: int
  DeletedAt :: "int option"

text \<open>\<^verbatim>\<open>NewUserCacheRepository\<close>: ten minutes, in nanoseconds as a \<^verbatim>\<open>time.Duration\<close> is.\<close>

definition users_config :: CacheConfig where
  "users_config =
     \<lparr>TableName = ''users_cache'', Expiration = 600000000000, UseNotFoundCache = True\<rparr>"

definition users_repo :: GormCacheRepository where
  "users_repo = \<lparr>config = users_config, primaryKey = ''id''\<rparr>"

text \<open>The same repository with \<^verbatim>\<open>UseNotFoundCache: false\<close>.\<close>

definition users_repo_plain :: GormCacheRepository where
  "users_repo_plain =
     \<lparr>config = users_config\<lparr>UseNotFoundCache := False\<rparr>, primaryKey = ''id''\<rparr>"

text \<open>\<^verbatim>\<open>fmt.Sprintf("%v", id)\<close> for an unsigned integer: its decimal digits.\<close>

definition digit_of :: "nat \<Rightarrow> char" where
  "digit_of d = ''0123456789'' ! d"

function Sprintf_v_uint :: "nat \<Rightarrow> string" where
  "Sprintf_v_uint n =
     (if n < 10 then [digit_of n] else Sprintf_v_uint (n div 10) @ [digit_of (n mod 10)])"
  by pat_completeness auto
termination
  by (relation "measure (\<lambda>n. n)") auto

declare Sprintf_v_uint.simps [simp del]

text \<open>\<^verbatim>\<open>fmt.Sprintf("%v", id)\<close> for a string identifier: the string itself.\<close>

definition Sprintf_v_string :: "string \<Rightarrow> string" where
  "Sprintf_v_string str = str"

text \<open>
  An in-memory stand-in for the database, used to run the operations on concrete inputs:
  a list of rows with a primary-key projection, and a switch \<open>fault\<close> that makes every
  call fail with the given error.
\<close>

record 'e mem_db =
  rows :: "'e list"
  fault :: "gorm_error option"

definition mem_First :: "('e \<Rightarrow> 'id) \<Rightarrow> string \<Rightarrow> 'id \<Rightarrow> 'e mem_db \<Rightarrow> (gorm_error + 'e) \<times> 'e mem_db" where
  "mem_First pk cond ident d =
     (case fault d of
        Some err \<Rightarrow> (Inl err, d)
      | None \<Rightarrow>
          (case find (\<lambda>u. pk u = ident) (rows d) of
             None \<Rightarrow> (Inl ErrRecordNotFound, d)
           | Some u \<Rightarrow> (Inr u, d)))"

definition mem_Find :: "'e mem_db \<Rightarrow> (gorm_error + 'e list) \<times> 'e mem_db" where
  "mem_Find d = (case fault d of Some err \<Rightarrow> (Inl err, d) | None \<Rightarrow> (Inr (rows d), d))"

definition mem_Find_in ::
  "('e \<Rightarrow> 'id) \<Rightarrow> string \<Rightarrow> 'id list \<Rightarrow> 'e mem_db \<Rightarrow> (gorm_error + 'e list) \<times> 'e mem_db" where
  "mem_Find_in pk cond ids d =
     (case fault d of
        Some err \<Rightarrow> (Inl err, d)
      | None \<Rightarrow> (Inr (filter (\<lambda>u. pk u \<in> set ids) (rows d)), d))"

definition mem_Save :: "('e \<Rightarrow> 'id) \<Rightarrow> 'e \<Rightarrow> 'e mem_db \<Rightarrow> (gorm_error option \<times> 'e) \<times> 'e mem_db" where
  "mem_Save pk u d =
     (case fault d of
        Some err \<Rightarrow> ((Some err, u), d)
      | None \<Rightarrow> ((None, u), d\<lparr>rows := filter (\<lambda>v. pk v \<noteq> pk u) (rows d) @ [u]\<rparr>))"

definition mem_Delete :: "('e \<Rightarrow> 'id) \<Rightarrow> string \<Rightarrow> 'id \<Rightarrow> 'e mem_db \<Rightarrow> gorm_error option \<times> 'e mem_db" where
  "mem_Delete pk cond ident d =
     (case fault d of
        Some err \<Rightarrow> (Some err, d)
      | None \<Rightarrow> (None, d\<lparr>rows := filter (\<lambda>u. pk u \<noteq> ident) (rows d)\<rparr>))"

definition mem_libs :: "('id \<Rightarrow> string) \<Rightarrow> ('e \<Rightarrow> 'id) \<Rightarrow> ('e, 'id, 'e mem_db) libs" where
  "mem_libs fmt pk =
     \<lparr>Sprintf_v = fmt,
      gorm_First = mem_First pk,
      gorm_Find = mem_Find,
      gorm_Find_in = mem_Find_in pk,
      gorm_Save = mem_Save pk,
      gorm_Delete = mem_Delete pk\<rparr>"

text \<open>The libraries at \<^verbatim>\<open>[User, uint]\<close>, and at an entity type keyed by a string.\<close>

definition user_libs :: "(User, nat, User mem_db) libs" where
  "user_libs = mem_libs Sprintf_v_uint ID"

definition named_libs :: "(string \<times> int, string, (string \<times> int) mem_db) libs" where
  "named_libs = mem_libs Sprintf_v_string fst"

text \<open>Three users, as the test file creates them.\<close>

definition user1 :: User where
  "user1 = \<lparr>ID = 1, Username = ''user1'', Email = ''user1@example.com'', Age = 20,
            Active = True, CreatedAt = 0, UpdatedAt = 0, DeletedAt = None\<rparr>"

definition user2 :: User where
  "user2 = \<lparr>ID = 2, Username = ''user2'', Email = ''user2@example.com'', Age = 25,
            Active = True, CreatedAt = 0, UpdatedAt = 0, DeletedAt = None\<rparr>"

definition user3 :: User where
  "user3 = \<lparr>ID = 3, Username = ''user3'', Email = ''user3@example.com'', Age = 30,
            Active = True, CreatedAt = 0, UpdatedAt = 0, DeletedAt = None\<rparr>"

text \<open>A world at time \<open>t\<close> with the given cache table and rows, and nothing logged yet.\<close>

definition world_of :: "'e CacheTable \<Rightarrow> 'e list \<Rightarrow> gorm_error option \<Rightarrow> int \<Rightarrow> ('e, 'id, 'e mem_db) world" where
  "world_of tbl us flt t =
     \<lparr>cacheTable = tbl, db = \<lparr>rows = us, fault = flt\<rparr>, clock = t, trace = []\<rparr>"

text \<open>A cache item as \<open>cache_Add\<close> creates it.\<close>

definition item :: "'e cache_data \<Rightarrow> int \<Rightarrow> int \<Rightarrow> 'e CacheItem" where
  "item d ttl t = \<lparr>data = d, lifeSpan = ttl, createdOn = t\<rparr>"

text \<open>A cache holding user 1 and the negative marker for id 7, both without expiry.\<close>

definition warm_world :: "(User, nat, User mem_db) world" where
  "warm_world =
     world_of [''1'' \<mapsto> item (Entity user1) 0 0, ''7'' \<mapsto> item NotFound 0 0] [] None 5"

text \<open>An empty cache over a table holding users 1 and 2, and the same with a failing database.\<close>

definition cold_world :: "(User, nat, User mem_db) world" where
  "cold_world = world_of Map.empty [user1, user2] None 5"

definition broken_world :: "(User, nat, User mem_db) world" where
  "broken_world = world_of Map.empty [user1, user2] (Some (ErrOther ''connection refused'')) 5"

text \<open>A repository over entities keyed by a string: a name and a number.\<close>

definition named_repo :: GormCacheRepository where
  "named_repo =
     \<lparr>config = \<lparr>TableName = ''named_cache'', Expiration = 0, UseNotFoundCache = True\<rparr>,
      primaryKey = ''name''\<rparr>"

definition named_world :: "(string \<times> int, string, (string \<times> int) mem_db) world" where
  "named_world = world_of Map.empty [(''all'', 1), (''bob'', 2)] None 5"

text \<open>A cache holding user 1 and the full collection, over a table holding users 1 and 2.\<close>

definition full_world :: "(User, nat, User mem_db) world" where
  "full_world =
     world_of [''1'' \<mapsto> item (Entity user1) 0 0, ''all'' \<mapsto> item (Entities [user1, user2]) 0 0]
       [user1, user2] None 5"

subsection \<open>Freshness of the full-collection snapshot\<close>

text \<open>
  Read off the trace: the result of the latest successful full scan (\<open>DBFind\<close>) that no
  successful \<open>DBSave\<close> or \<open>DBDelete\<close> has followed, if there is one.
\<close>

fun scan_after :: "'e list option \<Rightarrow> ('e, 'id) event \<Rightarrow> 'e list option" where
  "scan_after acc (DBFind (Inr es)) = Some es"
| "scan_after acc (DBSave e None) = None"
| "scan_after acc (DBDelete i None) = None"
| "scan_after acc ev = acc"

definition current_scan :: "('e, 'id) event list \<Rightarrow> 'e list option" where
  "current_scan tr = foldl scan_after None tr"

text \<open>
  The invariant of the \<^verbatim>\<open>"all"\<close> key: an entry under it, if there is one, holds the result
  of a full scan taken after the last successful write or delete.
\<close>

definition snapshot_fresh :: "('e, 'id, 'db) world \<Rightarrow> bool" where
  "snapshot_fresh s =
     (case cacheTable s ''all'' of
        None \<Rightarrow> True
      | Some it \<Rightarrow>
          (case current_scan (trace s) of
             None \<Rightarrow> False
           | Some es \<Rightarrow> data it = Entities es))"

text \<open>The world after \<open>GetAll\<close> has filled the empty cache.\<close>

definition listed_world :: "(User, nat, User mem_db) world" where
  "listed_world = snd (GetAll user_libs users_repo cold_world)"

subsection \<open>How the cache answers a batch of identifiers\<close>

text \<open>
  The entity a live entry under the key of \<open>i\<close> holds, if the entry holds one; whether that
  entry holds a collection instead; and the identifiers of a list whose keys are a miss, in
  the order of the list.
\<close>

definition cached_entity :: "('e, 'id, 'db) libs \<Rightarrow> ('e, 'id, 'db) world \<Rightarrow> 'id \<Rightarrow> 'e option" where
  "cached_entity g s i =
     (case table_Value s (buildCacheKey g i) of
        None \<Rightarrow> None
      | Some it \<Rightarrow> (case data it of Entity e \<Rightarrow> Some e | NotFound \<Rightarrow> None | Entities es \<Rightarrow> None))"

definition holds_collection :: "('e, 'id, 'db) libs \<Rightarrow> ('e, 'id, 'db) world \<Rightarrow> 'id \<Rightarrow> bool" where
  "holds_collection g s i =
     (case table_Value s (buildCacheKey g i) of
        None \<Rightarrow> False
      | Some it \<Rightarrow> (case data it of Entities es \<Rightarrow> True | NotFound \<Rightarrow> False | Entity e \<Rightarrow> False))"

definition uncached :: "('e, 'id, 'db) libs \<Rightarrow> ('e, 'id, 'db) world \<Rightarrow> 'id list \<Rightarrow> 'id list" where
  "uncached g s ids = filter (\<lambda>i. table_Value s (buildCacheKey g i) = None) ids"

text \<open>User 1 cached, users 1 and 2 in the table, no user 3 anywhere.\<close>

definition partial_world :: "(User, nat, User mem_db) world" where
  "partial_world = world_of [''1'' \<mapsto> item (Entity user1) 0 0] [user1, user2] None 5"

section \<open>Verified properties\<close>

lemmas table_defs =
  table_Value_def table_Add_def table_Delete_def table_Flush_def db_called_def
  cache_Value_def cache_Add_def cache_Delete_def cache_Flush_def

lemmas fixture_defs =
  mem_libs_def mem_First_def mem_Find_def mem_Find_in_def mem_Save_def mem_Delete_def
  user_libs_def named_libs_def users_repo_def users_config_def users_repo_plain_def
  world_of_def item_def warm_world_def full_world_def partial_world_def cold_world_def broken_world_def named_repo_def
  named_world_def Sprintf_v_uint.simps digit_of_def Sprintf_v_string_def
  user1_def user2_def user3_def

lemmas run_defs =
  GetByID_def GetAll_def Save_def Delete_def ClearCache_def ClearAllCache_def BatchGet_def
  table_defs live_def buildCacheKey_def buildCacheKeyFromEntity_def where_eq_def where_in_def
  errors_Is_def advance_def Let_def fixture_defs

subsection \<open>The cache store\<close>

lemma miss_persists:
  "cache_Value tbl t key = None \<Longrightarrow> 0 \<le> d \<Longrightarrow> cache_Value tbl (t + d) key = None"
  by (auto simp: cache_Value_def live_def split: option.splits if_splits)

subsection \<open>\<^verbatim>\<open>GetByID\<close>\<close>

lemma GetByID_on_hit:
  "table_Value s (buildCacheKey g ident) = Some it \<Longrightarrow>
     GetByID g r ident s =
       (case data it of NotFound \<Rightarrow> Inl (Err ErrRecordNotFound) | Entity e \<Rightarrow> Inr e
        | Entities es \<Rightarrow> Inl Panic, s)"
  by (simp add: GetByID_def Let_def split: cache_data.splits)

lemma GetByID_on_miss:
  "table_Value s (buildCacheKey g ident) = None \<Longrightarrow>
   gorm_First g (where_eq r) ident (db s) = (query, db') \<Longrightarrow>
     GetByID g r ident s =
       (case query of
          Inl err \<Rightarrow>
            (Inl (Err err),
             if UseNotFoundCache (config r) \<and> err = ErrRecordNotFound
             then s\<lparr>cacheTable := (cacheTable s)(buildCacheKey g ident \<mapsto>
                        \<lparr>data = NotFound, lifeSpan = Expiration (config r), createdOn = clock s\<rparr>),
                    db := db',
                    trace := trace s @ [DBFirst ident query,
                                        CacheAdd (buildCacheKey g ident) (Expiration (config r)) NotFound]\<rparr>
             else s\<lparr>db := db', trace := trace s @ [DBFirst ident query]\<rparr>)
        | Inr entity \<Rightarrow>
            (Inr entity,
             s\<lparr>cacheTable := (cacheTable s)(buildCacheKey g ident \<mapsto>
                        \<lparr>data = Entity entity, lifeSpan = Expiration (config r), createdOn = clock s\<rparr>),
               db := db',
               trace := trace s @ [DBFirst ident query,
                                   CacheAdd (buildCacheKey g ident) (Expiration (config r)) (Entity entity)]\<rparr>))"
  by (simp add: GetByID_def Let_def table_Add_def db_called_def cache_Add_def errors_Is_def
      split: sum.splits)

lemma GetByID_success_cached:
  assumes "GetByID g r ident s = (Inr e, s1)"
  shows "\<exists>it. cacheTable s1 (buildCacheKey g ident) = Some it \<and> data it = Entity e
              \<and> live (clock s1) it"
proof (cases "table_Value s (buildCacheKey g ident)")
  case None
  obtain query db' where q: "gorm_First g (where_eq r) ident (db s) = (query, db')"
    by (cases "gorm_First g (where_eq r) ident (db s)") auto
  from assms GetByID_on_miss [OF None q] show ?thesis
    by (auto simp: live_def split: sum.splits)
next
  case (Some it)
  from assms GetByID_on_hit [OF Some] have "data it = Entity e" "s1 = s"
    by (auto split: cache_data.splits)
  moreover from Some have "cacheTable s (buildCacheKey g ident) = Some it" "live (clock s) it"
    by (auto simp: table_Value_def cache_Value_def split: option.splits if_splits)
  ultimately show ?thesis by auto
qed

text \<open>
  Claim C3.  When the key of \<open>ident\<close> has a live cache entry, \<open>GetByID\<close> leaves the whole
  world as it was, so the database is not called and nothing is logged; an entry holding an
  entity makes it return that entity, an entry holding the negative marker makes it fail with
  \<open>ErrRecordNotFound\<close>.  After a successful \<open>GetByID\<close>, a second one in the resulting state,
  or at any later time at which the entry is still live, returns the same entity and again
  leaves the world unchanged.
\<close>

theorem GetByID_cache_hit:
  "(table_Value s (buildCacheKey g ident) = Some it \<longrightarrow>
      snd (GetByID g r ident s) = s \<and>
      (data it = Entity e \<longrightarrow> fst (GetByID g r ident s) = Inr e) \<and>
      (data it = NotFound \<longrightarrow> fst (GetByID g r ident s) = Inl (Err ErrRecordNotFound))) \<and>
   (GetByID g r ident s = (Inr e', s1) \<longrightarrow>
      GetByID g r ident s1 = (Inr e', s1) \<and>
      (table_Value (advance d s1) (buildCacheKey g ident) \<noteq> None \<longrightarrow>
         GetByID g r ident (advance d s1) = (Inr e', advance d s1)))"
proof (intro conjI impI)
  assume hit: "table_Value s (buildCacheKey g ident) = Some it"
  show "snd (GetByID g r ident s) = s"
    by (simp add: GetByID_on_hit [OF hit])
  show "fst (GetByID g r ident s) = Inr e" if "data it = Entity e"
    using that by (simp add: GetByID_on_hit [OF hit])
  show "fst (GetByID g r ident s) = Inl (Err ErrRecordNotFound)" if "data it = NotFound"
    using that by (simp add: GetByID_on_hit [OF hit])
next
  assume first: "GetByID g r ident s = (Inr e', s1)"
  from GetByID_success_cached [OF first] obtain it1 where
    it1: "cacheTable s1 (buildCacheKey g ident) = Some it1" "data it1 = Entity e'"
      "live (clock s1) it1"
    by blast
  then have "table_Value s1 (buildCacheKey g ident) = Some it1"
    by (simp add: table_Value_def cache_Value_def)
  from GetByID_on_hit [OF this] it1(2) show "GetByID g r ident s1 = (Inr e', s1)"
    by simp
  assume "table_Value (advance d s1) (buildCacheKey g ident) \<noteq> None"
  with it1(1) have "table_Value (advance d s1) (buildCacheKey g ident) = Some it1"
    by (auto simp: table_Value_def cache_Value_def advance_def split: if_splits)
  from GetByID_on_hit [OF this] it1(2)
  show "GetByID g r ident (advance d s1) = (Inr e', advance d s1)"
    by simp
qed

text \<open>
  The theorem at the cache holding user 1 and the marker for id 7: the hit on 1 returns
  user 1, the hit on 7 fails with \<open>ErrRecordNotFound\<close>, the world stays as it was, and a
  repeated call a minute later does the same.
\<close>

theorem GetByID_cache_hit_witness:
  "table_Value warm_world ''1'' = Some (item (Entity user1) 0 0) \<and>
   table_Value warm_world ''7'' = Some (item NotFound 0 0) \<and>
   table_Value (advance 60000000000 warm_world) ''1'' \<noteq> None \<and>
   GetByID user_libs users_repo 1 warm_world = (Inr user1, warm_world) \<and>
   GetByID user_libs users_repo 7 warm_world = (Inl (Err ErrRecordNotFound), warm_world) \<and>
   GetByID user_libs users_repo 1 (advance 60000000000 warm_world) =
     (Inr user1, advance 60000000000 warm_world)"
  using
    GetByID_cache_hit [where s = warm_world and g = user_libs and ident = 1
      and it = "item (Entity user1) 0 0" and e = user1 and r = users_repo and e' = user1
      and d = 60000000000 and ?s1.0 = warm_world]
    GetByID_cache_hit [where s = warm_world and g = user_libs and ident = 7
      and it = "item NotFound 0 0" and e = user1 and r = users_repo and e' = user1
      and d = 0 and ?s1.0 = warm_world]
  by (simp add: table_Value_def cache_Value_def live_def buildCacheKey_def advance_def
      fixture_defs prod_eq_iff)

lemma store_calls_append [simp]: "store_calls (xs @ ys) = store_calls xs @ store_calls ys"
  by (simp add: store_calls_def)

lemma store_calls_Cons:
  "store_calls (ev # evs) = (if is_store_call ev then ev # store_calls evs else store_calls evs)"
  by (simp add: store_calls_def)

lemma store_calls_Nil [simp]: "store_calls [] = []"
  by (simp add: store_calls_def)

text \<open>
  Claim C4.  On a cache miss \<open>GetByID\<close> calls the database once, by id.  When the database
  reports not-found and negative caching is enabled, the negative marker is stored under the
  id's key with the configured TTL and stamped with the current time, not-found is returned,
  and a second call made while the marker is live is answered from the cache with the world
  unchanged, so the two calls cost one database call.  When negative caching is disabled the
  cache table is unchanged, the key is still a miss at any later time, and a second call
  queries the database again.  Any other database error is returned as it is and the cache
  table is unchanged.
\<close>

theorem GetByID_cache_miss:
  assumes miss: "table_Value s (buildCacheKey g ident) = None"
    and first: "gorm_First g (where_eq r) ident (db s) = (query, db')"
    and res: "GetByID g r ident s = (out, s1)"
  shows
   "store_calls (trace s1) = store_calls (trace s) @ [DBFirst ident query] \<and> db s1 = db' \<and>
    (query = Inl ErrRecordNotFound \<and> UseNotFoundCache (config r) \<longrightarrow>
       out = Inl (Err ErrRecordNotFound) \<and>
       cacheTable s1 = (cacheTable s)(buildCacheKey g ident \<mapsto>
          \<lparr>data = NotFound, lifeSpan = Expiration (config r), createdOn = clock s\<rparr>) \<and>
       (Expiration (config r) \<le> 0 \<or> d < Expiration (config r) \<longrightarrow>
          GetByID g r ident (advance d s1) = (Inl (Err ErrRecordNotFound), advance d s1))) \<and>
    (query = Inl ErrRecordNotFound \<and> \<not> UseNotFoundCache (config r) \<longrightarrow>
       out = Inl (Err ErrRecordNotFound) \<and> cacheTable s1 = cacheTable s \<and>
       (0 \<le> d \<longrightarrow>
          table_Value (advance d s1) (buildCacheKey g ident) = None \<and>
          store_calls (trace (snd (GetByID g r ident (advance d s1)))) =
            store_calls (trace s) @
              [DBFirst ident query, DBFirst ident (fst (gorm_First g (where_eq r) ident db'))])) \<and>
    (\<forall>err. query = Inl err \<and> err \<noteq> ErrRecordNotFound \<longrightarrow>
       out = Inl (Err err) \<and> cacheTable s1 = cacheTable s)"
proof (intro conjI impI allI)
  note run = GetByID_on_miss [OF miss first, unfolded res]
  show "store_calls (trace s1) = store_calls (trace s) @ [DBFirst ident query]"
    using run by (auto simp: store_calls_Cons split: sum.splits if_splits)
  show "db s1 = db'"
    using run by (auto split: sum.splits if_splits)
  {
    assume nf: "query = Inl ErrRecordNotFound \<and> UseNotFoundCache (config r)"
    with run show "out = Inl (Err ErrRecordNotFound)" by auto
    from nf run show tbl: "cacheTable s1 = (cacheTable s)(buildCacheKey g ident \<mapsto>
          \<lparr>data = NotFound, lifeSpan = Expiration (config r), createdOn = clock s\<rparr>)"
      by auto
    assume "Expiration (config r) \<le> 0 \<or> d < Expiration (config r)"
    moreover from nf run have "clock s1 = clock s" by auto
    ultimately have "table_Value (advance d s1) (buildCacheKey g ident) =
        Some \<lparr>data = NotFound, lifeSpan = Expiration (config r), createdOn = clock s\<rparr>"
      using tbl by (auto simp: table_Value_def cache_Value_def advance_def live_def)
    from GetByID_on_hit [OF this]
    show "GetByID g r ident (advance d s1) = (Inl (Err ErrRecordNotFound), advance d s1)"
      by simp
  }
  {
    assume nf: "query = Inl ErrRecordNotFound \<and> \<not> UseNotFoundCache (config r)"
    with run show "out = Inl (Err ErrRecordNotFound)" by auto
    from nf run show "cacheTable s1 = cacheTable s" by auto
    assume d: "0 \<le> d"
    from nf run have s1: "s1 = s\<lparr>db := db', trace := trace s @ [DBFirst ident query]\<rparr>" by auto
    from miss d show miss': "table_Value (advance d s1) (buildCacheKey g ident) = None"
      by (simp add: s1 table_Value_def advance_def miss_persists)
    obtain query2 db2 where
      second: "gorm_First g (where_eq r) ident (db (advance d s1)) = (query2, db2)"
      by (cases "gorm_First g (where_eq r) ident (db (advance d s1))") auto
    then have q2: "fst (gorm_First g (where_eq r) ident db') = query2"
      by (simp add: s1 advance_def)
    show "store_calls (trace (snd (GetByID g r ident (advance d s1)))) =
            store_calls (trace s) @
              [DBFirst ident query, DBFirst ident (fst (gorm_First g (where_eq r) ident db'))]"
      unfolding q2 GetByID_on_miss [OF miss' second]
      by (auto simp: s1 advance_def store_calls_Cons split: sum.splits)
  }
  {
    fix err assume other: "query = Inl err \<and> err \<noteq> ErrRecordNotFound"
    with run show "out = Inl (Err err)" by auto
    from other run show "cacheTable s1 = cacheTable s" by auto
  }
qed

lemma cold_key_miss: "table_Value cold_world (buildCacheKey user_libs 99999) = None"
  by (simp add: table_Value_def cache_Value_def buildCacheKey_def fixture_defs)

lemma cold_first_99999:
  "gorm_First user_libs cond 99999 (db cold_world) = (Inl ErrRecordNotFound, db cold_world)"
  by (simp add: fixture_defs)

lemma broken_key_miss: "table_Value broken_world (buildCacheKey user_libs 1) = None"
  by (simp add: table_Value_def cache_Value_def buildCacheKey_def fixture_defs)

lemma broken_first:
  "gorm_First user_libs cond 1 (db broken_world) =
     (Inl (ErrOther ''connection refused''), db broken_world)"
  by (simp add: fixture_defs)

lemma cold_negative_run:
  "GetByID user_libs users_repo 99999 cold_world =
     (Inl (Err ErrRecordNotFound),
      cold_world\<lparr>cacheTable := [''99999'' \<mapsto> item NotFound 600000000000 5],
                 trace := [DBFirst 99999 (Inl ErrRecordNotFound),
                           CacheAdd ''99999'' 600000000000 NotFound]\<rparr>)"
  by (simp add: run_defs)

lemma cold_plain_run:
  "GetByID user_libs users_repo_plain 99999 cold_world =
     (Inl (Err ErrRecordNotFound),
      cold_world\<lparr>trace := [DBFirst 99999 (Inl ErrRecordNotFound)]\<rparr>)"
  by (simp add: run_defs)

lemma broken_run:
  "GetByID user_libs users_repo 1 broken_world =
     (Inl (Err (ErrOther ''connection refused'')),
      broken_world\<lparr>trace := [DBFirst 1 (Inl (ErrOther ''connection refused''))]\<rparr>)"
  by (simp add: run_defs)

text \<open>
  The theorem at id 99999, which no row has, on an empty cache: with negative caching the
  marker is stored with the ten-minute TTL and the call one nanosecond later is answered
  from the cache; without it nothing is stored and the second call queries again; with a
  failing database the error comes back and nothing is stored.
\<close>

theorem GetByID_cache_miss_witness:
  "table_Value cold_world (buildCacheKey user_libs 99999) = None \<and>
   gorm_First user_libs (where_eq users_repo) 99999 (db cold_world) =
     (Inl ErrRecordNotFound, db cold_world) \<and>
   GetByID user_libs users_repo 99999 cold_world =
     (Inl (Err ErrRecordNotFound),
      cold_world\<lparr>cacheTable := [''99999'' \<mapsto> item NotFound 600000000000 5],
                 trace := [DBFirst 99999 (Inl ErrRecordNotFound),
                           CacheAdd ''99999'' 600000000000 NotFound]\<rparr>) \<and>
   GetByID user_libs users_repo 99999
     (advance 1 (cold_world\<lparr>cacheTable := [''99999'' \<mapsto> item NotFound 600000000000 5],
                 trace := [DBFirst 99999 (Inl ErrRecordNotFound),
                           CacheAdd ''99999'' 600000000000 NotFound]\<rparr>)) =
     (Inl (Err ErrRecordNotFound),
      advance 1 (cold_world\<lparr>cacheTable := [''99999'' \<mapsto> item NotFound 600000000000 5],
                 trace := [DBFirst 99999 (Inl ErrRecordNotFound),
                           CacheAdd ''99999'' 600000000000 NotFound]\<rparr>)) \<and>
   store_calls (trace (snd (GetByID user_libs users_repo_plain 99999
       (advance 1 (cold_world\<lparr>trace := [DBFirst 99999 (Inl ErrRecordNotFound)]\<rparr>))))) =
     [DBFirst 99999 (Inl ErrRecordNotFound), DBFirst 99999 (Inl ErrRecordNotFound)] \<and>
   table_Value broken_world (buildCacheKey user_libs 1) = None \<and>
   cacheTable (broken_world\<lparr>trace := [DBFirst 1 (Inl (ErrOther ''connection refused''))]\<rparr>) =
     cacheTable broken_world"
proof -
  have enabled: "UseNotFoundCache (config users_repo)"
      "(1::int) < Expiration (config users_repo)"
    and disabled: "\<not> UseNotFoundCache (config users_repo_plain)"
    and pos: "(0::int) \<le> 1"
    and differs: "ErrOther ''connection refused'' \<noteq> ErrRecordNotFound"
    by (simp_all add: fixture_defs)
  have tr: "store_calls (trace cold_world) = []"
    by (simp add: fixture_defs)
  note a = GetByID_cache_miss [OF cold_key_miss cold_first_99999 cold_negative_run, where d = 1]
  note b = GetByID_cache_miss [OF cold_key_miss cold_first_99999 cold_plain_run, where d = 1]
  note c = GetByID_cache_miss [OF broken_key_miss broken_first broken_run, where d = 1]
  from a enabled
  have "GetByID user_libs users_repo 99999
     (advance 1 (cold_world\<lparr>cacheTable := [''99999'' \<mapsto> item NotFound 600000000000 5],
                 trace := [DBFirst 99999 (Inl ErrRecordNotFound),
                           CacheAdd ''99999'' 600000000000 NotFound]\<rparr>)) =
     (Inl (Err ErrRecordNotFound),
      advance 1 (cold_world\<lparr>cacheTable := [''99999'' \<mapsto> item NotFound 600000000000 5],
                 trace := [DBFirst 99999 (Inl ErrRecordNotFound),
                           CacheAdd ''99999'' 600000000000 NotFound]\<rparr>))"
    by blast
  moreover from b disabled pos
  have "store_calls (trace (snd (GetByID user_libs users_repo_plain 99999
       (advance 1 (cold_world\<lparr>trace := [DBFirst 99999 (Inl ErrRecordNotFound)]\<rparr>))))) =
     store_calls (trace cold_world) @
       [DBFirst 99999 (Inl ErrRecordNotFound),
        DBFirst 99999 (fst (gorm_First user_libs (where_eq users_repo_plain) 99999 (db cold_world)))]"
    by blast
  moreover from c differs
  have "cacheTable (broken_world\<lparr>trace := [DBFirst 1 (Inl (ErrOther ''connection refused''))]\<rparr>) =
     cacheTable broken_world"
    by blast
  ultimately show ?thesis
    using cold_key_miss cold_first_99999 cold_negative_run broken_key_miss tr
    by (simp only: fst_conv append_Nil simp_thms)
qed

subsection \<open>\<^verbatim>\<open>Save\<close> and \<^verbatim>\<open>Delete\<close>\<close>

lemma Save_run:
  "gorm_Save g entity (db s) = ((query, entity'), db') \<Longrightarrow>
     Save g r entity s =
       (case query of
          Some err \<Rightarrow> (Some err, s\<lparr>db := db', trace := trace s @ [DBSave entity query]\<rparr>)
        | None \<Rightarrow>
            (None,
             s\<lparr>cacheTable := ((cacheTable s)([] \<mapsto>
                   \<lparr>data = Entity entity', lifeSpan = Expiration (config r), createdOn = clock s\<rparr>))
                   (''all'' := None),
               db := db',
               trace := trace s @ [DBSave entity query,
                                   CacheAdd [] (Expiration (config r)) (Entity entity'),
                                   CacheDelete ''all'']\<rparr>))"
  by (simp add: Save_def Let_def table_defs buildCacheKeyFromEntity_def split: option.splits)

lemma Delete_run:
  "gorm_Delete g (where_eq r) ident (db s) = (query, db') \<Longrightarrow>
     Delete g r ident s =
       (case query of
          Some err \<Rightarrow> (Some err, s\<lparr>db := db', trace := trace s @ [DBDelete ident query]\<rparr>)
        | None \<Rightarrow>
            (None,
             s\<lparr>cacheTable := (cacheTable s)(buildCacheKey g ident := None, ''all'' := None),
               db := db',
               trace := trace s @ [DBDelete ident query,
                                   CacheDelete (buildCacheKey g ident),
                                   CacheDelete ''all'']\<rparr>))"
  by (simp add: Delete_def Let_def table_defs split: option.splits)

text \<open>
  Claim C5.  \<open>Save\<close> and \<open>Delete\<close> call the database before they touch the cache: the first
  event either of them logs is the database write, and everything logged after it is a cache
  mutation.  When the write fails, the error is returned as it is, nothing else is logged and
  the cache table is unchanged.
\<close>

theorem write_through:
  assumes sv: "gorm_Save g entity (db s) = ((qs, entity'), dbs)"
    and dl: "gorm_Delete g (where_eq r) ident (db s) = (qd, dbd)"
  shows
   "(\<exists>rest. trace (snd (Save g r entity s)) = trace s @ DBSave entity qs # rest \<and>
            list_all is_cache_mutation rest) \<and>
    (\<forall>err. qs = Some err \<longrightarrow>
       Save g r entity s = (Some err, s\<lparr>db := dbs, trace := trace s @ [DBSave entity qs]\<rparr>) \<and>
       cacheTable (snd (Save g r entity s)) = cacheTable s) \<and>
    (\<exists>rest. trace (snd (Delete g r ident s)) = trace s @ DBDelete ident qd # rest \<and>
            list_all is_cache_mutation rest) \<and>
    (\<forall>err. qd = Some err \<longrightarrow>
       Delete g r ident s = (Some err, s\<lparr>db := dbd, trace := trace s @ [DBDelete ident qd]\<rparr>) \<and>
       cacheTable (snd (Delete g r ident s)) = cacheTable s)"
proof (intro conjI allI impI)
  show "\<exists>rest. trace (snd (Save g r entity s)) = trace s @ DBSave entity qs # rest \<and>
            list_all is_cache_mutation rest"
    by (cases qs) (simp_all add: Save_run [OF sv] is_cache_mutation_def)
  show "\<exists>rest. trace (snd (Delete g r ident s)) = trace s @ DBDelete ident qd # rest \<and>
            list_all is_cache_mutation rest"
    by (cases qd) (simp_all add: Delete_run [OF dl] is_cache_mutation_def)
next
  fix err assume "qs = Some err"
  then show "Save g r entity s = (Some err, s\<lparr>db := dbs, trace := trace s @ [DBSave entity qs]\<rparr>)"
    and "cacheTable (snd (Save g r entity s)) = cacheTable s"
    by (simp_all add: Save_run [OF sv])
next
  fix err assume "qd = Some err"
  then show "Delete g r ident s = (Some err, s\<lparr>db := dbd, trace := trace s @ [DBDelete ident qd]\<rparr>)"
    and "cacheTable (snd (Delete g r ident s)) = cacheTable s"
    by (simp_all add: Delete_run [OF dl])
qed

lemma offline_Save:
  "gorm_Save user_libs user3 (db (warm_world\<lparr>db := db broken_world\<rparr>)) =
     ((Some (ErrOther ''connection refused''), user3), db broken_world)"
  by (simp add: fixture_defs)

lemma offline_Delete:
  "gorm_Delete user_libs cond 1 (db (warm_world\<lparr>db := db broken_world\<rparr>)) =
     (Some (ErrOther ''connection refused''), db broken_world)"
  by (simp add: fixture_defs)

text \<open>
  The theorem at the warm cache over a database that refuses connections: saving user 3 and
  deleting id 1 both return the error, log the one database call, and leave the two cached
  entries in place.
\<close>

theorem write_through_witness:
  "gorm_Save user_libs user3 (db (warm_world\<lparr>db := db broken_world\<rparr>)) =
     ((Some (ErrOther ''connection refused''), user3), db broken_world) \<and>
   gorm_Delete user_libs (where_eq users_repo) 1 (db (warm_world\<lparr>db := db broken_world\<rparr>)) =
     (Some (ErrOther ''connection refused''), db broken_world) \<and>
   Save user_libs users_repo user3 (warm_world\<lparr>db := db broken_world\<rparr>) =
     (Some (ErrOther ''connection refused''),
      warm_world\<lparr>db := db broken_world,
                 trace := [DBSave user3 (Some (ErrOther ''connection refused''))]\<rparr>) \<and>
   cacheTable (snd (Save user_libs users_repo user3 (warm_world\<lparr>db := db broken_world\<rparr>))) =
     cacheTable warm_world \<and>
   Delete user_libs users_repo 1 (warm_world\<lparr>db := db broken_world\<rparr>) =
     (Some (ErrOther ''connection refused''),
      warm_world\<lparr>db := db broken_world,
                 trace := [DBDelete 1 (Some (ErrOther ''connection refused''))]\<rparr>) \<and>
   cacheTable (snd (Delete user_libs users_repo 1 (warm_world\<lparr>db := db broken_world\<rparr>))) =
     cacheTable warm_world"
proof -
  note w = write_through [OF offline_Save offline_Delete, where r = users_repo]
  from w have
    "Save user_libs users_repo user3 (warm_world\<lparr>db := db broken_world\<rparr>) =
       (Some (ErrOther ''connection refused''),
        warm_world\<lparr>db := db broken_world, db := db broken_world,
          trace := trace (warm_world\<lparr>db := db broken_world\<rparr>) @
            [DBSave user3 (Some (ErrOther ''connection refused''))]\<rparr>)"
    "Delete user_libs users_repo 1 (warm_world\<lparr>db := db broken_world\<rparr>) =
       (Some (ErrOther ''connection refused''),
        warm_world\<lparr>db := db broken_world, db := db broken_world,
          trace := trace (warm_world\<lparr>db := db broken_world\<rparr>) @
            [DBDelete 1 (Some (ErrOther ''connection refused''))]\<rparr>)"
    "cacheTable (snd (Save user_libs users_repo user3 (warm_world\<lparr>db := db broken_world\<rparr>))) =
       cacheTable (warm_world\<lparr>db := db broken_world\<rparr>)"
    "cacheTable (snd (Delete user_libs users_repo 1 (warm_world\<lparr>db := db broken_world\<rparr>))) =
       cacheTable (warm_world\<lparr>db := db broken_world\<rparr>)"
    by blast+
  moreover have "trace warm_world = []"
    by (simp add: fixture_defs)
  ultimately show ?thesis
    using offline_Save offline_Delete by simp
qed

subsection \<open>\<^verbatim>\<open>GetAll\<close>\<close>

lemma GetAll_on_hit:
  "table_Value s ''all'' = Some it \<Longrightarrow>
     GetAll g r s =
       (case data it of Entities es \<Rightarrow> Inr es | NotFound \<Rightarrow> Inl Panic | Entity e \<Rightarrow> Inl Panic, s)"
  by (simp add: GetAll_def Let_def split: cache_data.splits)

lemma GetAll_on_miss:
  "table_Value s ''all'' = None \<Longrightarrow> gorm_Find g (db s) = (query, db') \<Longrightarrow>
     GetAll g r s =
       (case query of
          Inl err \<Rightarrow> (Inl (Err err), s\<lparr>db := db', trace := trace s @ [DBFind query]\<rparr>)
        | Inr entities \<Rightarrow>
            (Inr entities,
             s\<lparr>cacheTable := (cacheTable s)(''all'' \<mapsto>
                   \<lparr>data = Entities entities, lifeSpan = Expiration (config r),
                    createdOn = clock s\<rparr>),
               db := db',
               trace := trace s @ [DBFind query,
                                   CacheAdd ''all'' (Expiration (config r)) (Entities entities)]\<rparr>))"
  by (simp add: GetAll_def Let_def table_Add_def db_called_def cache_Add_def split: sum.splits)

text \<open>
  Claim C8, as stated, fails when the live entry under \<^verbatim>\<open>"all"\<close> holds no collection.  With
  string identifiers, \<open>GetByID\<close> of the identifier \<^verbatim>\<open>"all"\<close> misses, reads the row and stores
  that one entity under the key \<^verbatim>\<open>"all"\<close>; the entry is live, and the \<open>GetAll\<close> that follows
  returns no collection: it panics on the type assertion.  The same happens with the negative
  marker, stored under \<^verbatim>\<open>"all"\<close> when the table has no row of that name.
\<close>

theorem GetAll_reserved_key_counterexample:
  "table_Value (snd (GetByID named_libs named_repo ''all'' named_world)) ''all'' =
     Some (item (Entity (''all'', 1)) 0 5) \<and>
   GetAll named_libs named_repo (snd (GetByID named_libs named_repo ''all'' named_world)) =
     (Inl Panic, snd (GetByID named_libs named_repo ''all'' named_world)) \<and>
   table_Value (snd (GetByID named_libs named_repo ''all''
       (world_of Map.empty [(''bob'', 2)] None 5))) ''all'' = Some (item NotFound 0 5) \<and>
   fst (GetAll named_libs named_repo (snd (GetByID named_libs named_repo ''all''
       (world_of Map.empty [(''bob'', 2)] None 5)))) = Inl Panic"
  by (simp add: run_defs)

text \<open>
  Claim C8, amended.  When the \<^verbatim>\<open>"all"\<close> key has a live entry, \<open>GetAll\<close> leaves the whole
  world as it was (no database call), and when that entry holds a collection it returns the
  collection as it is stored.  On a miss it calls the database once for the full collection;
  on success it stores the collection under \<^verbatim>\<open>"all"\<close> with the configured TTL, stamped with
  the current time, and returns it; on an error it returns that error as it is and the cache
  table is unchanged.
\<close>

theorem GetAll_cache_aside:
  "(table_Value s ''all'' = Some it \<longrightarrow>
      snd (GetAll g r s) = s \<and>
      (data it = Entities es \<longrightarrow> GetAll g r s = (Inr es, s))) \<and>
   (table_Value s ''all'' = None \<and> gorm_Find g (db s) = (query, db') \<longrightarrow>
      (query = Inr entities \<longrightarrow>
         GetAll g r s =
           (Inr entities,
            s\<lparr>cacheTable := (cacheTable s)(''all'' \<mapsto>
                  \<lparr>data = Entities entities, lifeSpan = Expiration (config r),
                   createdOn = clock s\<rparr>),
              db := db',
              trace := trace s @ [DBFind query,
                                  CacheAdd ''all'' (Expiration (config r)) (Entities entities)]\<rparr>)) \<and>
      (query = Inl err \<longrightarrow>
         GetAll g r s = (Inl (Err err), s\<lparr>db := db', trace := trace s @ [DBFind query]\<rparr>) \<and>
         cacheTable (snd (GetAll g r s)) = cacheTable s))"
proof (intro conjI impI)
  assume hit: "table_Value s ''all'' = Some it"
  show "snd (GetAll g r s) = s"
    by (simp add: GetAll_on_hit [OF hit])
  show "GetAll g r s = (Inr es, s)" if "data it = Entities es"
    using that by (simp add: GetAll_on_hit [OF hit])
next
  assume "table_Value s ''all'' = None \<and> gorm_Find g (db s) = (query, db')"
  then have run: "GetAll g r s =
       (case query of
          Inl err \<Rightarrow> (Inl (Err err), s\<lparr>db := db', trace := trace s @ [DBFind query]\<rparr>)
        | Inr entities \<Rightarrow>
            (Inr entities,
             s\<lparr>cacheTable := (cacheTable s)(''all'' \<mapsto>
                   \<lparr>data = Entities entities, lifeSpan = Expiration (config r),
                    createdOn = clock s\<rparr>),
               db := db',
               trace := trace s @ [DBFind query,
                                   CacheAdd ''all'' (Expiration (config r)) (Entities entities)]\<rparr>))"
    by (simp add: GetAll_on_miss)
  show "GetAll g r s =
           (Inr entities,
            s\<lparr>cacheTable := (cacheTable s)(''all'' \<mapsto>
                  \<lparr>data = Entities entities, lifeSpan = Expiration (config r),
                   createdOn = clock s\<rparr>),
              db := db',
              trace := trace s @ [DBFind query,
                                  CacheAdd ''all'' (Expiration (config r)) (Entities entities)]\<rparr>)"
    if "query = Inr entities"
    using that run by simp
  show "GetAll g r s = (Inl (Err err), s\<lparr>db := db', trace := trace s @ [DBFind query]\<rparr>)"
    and "cacheTable (snd (GetAll g r s)) = cacheTable s"
    if "query = Inl err"
    using that run by simp_all
qed

lemma full_all_hit:
  "table_Value full_world ''all'' = Some (item (Entities [user1, user2]) 0 0)"
  by (simp add: table_Value_def cache_Value_def live_def fixture_defs)

lemma cold_all_miss:
  "table_Value cold_world ''all'' = None \<and>
   gorm_Find user_libs (db cold_world) = (Inr [user1, user2], db cold_world)"
  by (simp add: table_Value_def cache_Value_def fixture_defs)

lemma broken_all_miss:
  "table_Value broken_world ''all'' = None \<and>
   gorm_Find user_libs (db broken_world) = (Inl (ErrOther ''connection refused''), db broken_world)"
  by (simp add: table_Value_def cache_Value_def fixture_defs)

text \<open>
  The theorem at three worlds: the snapshot is served from the cache; on an empty cache the
  two rows are read, stored under \<^verbatim>\<open>"all"\<close> and returned; with a failing database the
  error is returned and the cache stays empty.
\<close>

theorem GetAll_cache_aside_witness:
  "table_Value full_world ''all'' = Some (item (Entities [user1, user2]) 0 0) \<and>
   GetAll user_libs users_repo full_world = (Inr [user1, user2], full_world) \<and>
   table_Value cold_world ''all'' = None \<and>
   GetAll user_libs users_repo cold_world =
     (Inr [user1, user2],
      cold_world\<lparr>cacheTable := [''all'' \<mapsto> item (Entities [user1, user2]) 600000000000 5],
                 trace := [DBFind (Inr [user1, user2]),
                           CacheAdd ''all'' 600000000000 (Entities [user1, user2])]\<rparr>) \<and>
   table_Value broken_world ''all'' = None \<and>
   GetAll user_libs users_repo broken_world =
     (Inl (Err (ErrOther ''connection refused'')),
      broken_world\<lparr>trace := [DBFind (Inl (ErrOther ''connection refused''))]\<rparr>)"
proof -
  have d: "data (item (Entities [user1, user2]) 0 0) = Entities [user1, user2]"
    by (simp add: item_def)
  from full_all_hit d
    GetAll_cache_aside [where s = full_world and it = "item (Entities [user1, user2]) 0 0"
      and es = "[user1, user2]" and g = user_libs and r = users_repo]
  have "GetAll user_libs users_repo full_world = (Inr [user1, user2], full_world)"
    by blast
  moreover from cold_all_miss
    GetAll_cache_aside [where s = cold_world and g = user_libs and r = users_repo
      and query = "Inr [user1, user2]" and db' = "db cold_world" and entities = "[user1, user2]"]
  have "GetAll user_libs users_repo cold_world =
     (Inr [user1, user2],
      cold_world\<lparr>cacheTable := (cacheTable cold_world)(''all'' \<mapsto>
                    \<lparr>data = Entities [user1, user2], lifeSpan = Expiration (config users_repo),
                     createdOn = clock cold_world\<rparr>),
                 db := db cold_world,
                 trace := trace cold_world @ [DBFind (Inr [user1, user2]),
                   CacheAdd ''all'' (Expiration (config users_repo)) (Entities [user1, user2])]\<rparr>)"
    by blast
  moreover from broken_all_miss
    GetAll_cache_aside [where s = broken_world and g = user_libs and r = users_repo
      and query = "Inl (ErrOther ''connection refused'')" and db' = "db broken_world"
      and err = "ErrOther ''connection refused''"]
  have "GetAll user_libs users_repo broken_world =
     (Inl (Err (ErrOther ''connection refused'')),
      broken_world\<lparr>db := db broken_world,
                   trace := trace broken_world @ [DBFind (Inl (ErrOther ''connection refused''))]\<rparr>)"
    by blast
  ultimately show ?thesis
    using full_all_hit cold_all_miss broken_all_miss
    by (simp add: fixture_defs)
qed

subsection \<open>\<^verbatim>\<open>ClearCache\<close> and \<^verbatim>\<open>ClearAllCache\<close>\<close>

text \<open>
  Claim C7, as stated, fails for an identifier whose key is the string \<^verbatim>\<open>"all"\<close>.  With
  string identifiers, \<open>GetAll\<close> on the two-row table stores the snapshot under \<^verbatim>\<open>"all"\<close>,
  and \<open>ClearCache\<close> of the identifier \<^verbatim>\<open>"all"\<close> then removes that snapshot.
\<close>

theorem ClearCache_reserved_key_counterexample:
  "cacheTable (snd (GetAll named_libs named_repo named_world)) ''all'' =
     Some (item (Entities [(''all'', 1), (''bob'', 2)]) 0 5) \<and>
   fst (ClearCache named_libs named_repo ''all''
          (snd (GetAll named_libs named_repo named_world))) = None \<and>
   cacheTable (snd (ClearCache named_libs named_repo ''all''
          (snd (GetAll named_libs named_repo named_world)))) ''all'' = None"
  by (simp add: run_defs)

text \<open>
  Claim C7, amended.  \<open>ClearCache\<close> always returns nil; it removes the entry under the key
  of \<open>ident\<close>, logs that one cache deletion, and changes nothing else: the database state and
  the database calls logged are as before, and every key other than the key of \<open>ident\<close>
  keeps its entry, so the \<^verbatim>\<open>"all"\<close> key keeps its entry whenever the key of \<open>ident\<close> is not
  the string \<^verbatim>\<open>"all"\<close>.  \<open>ClearAllCache\<close> always returns nil and leaves the cache table
  without any entry; it does not call the database either.
\<close>

theorem ClearCache_frame:
  "ClearCache g r ident s =
     (None, s\<lparr>cacheTable := (cacheTable s)(buildCacheKey g ident := None),
              trace := trace s @ [CacheDelete (buildCacheKey g ident)]\<rparr>) \<and>
   db (snd (ClearCache g r ident s)) = db s \<and>
   store_calls (trace (snd (ClearCache g r ident s))) = store_calls (trace s) \<and>
   cacheTable (snd (ClearCache g r ident s)) (buildCacheKey g ident) = None \<and>
   (\<forall>key. key \<noteq> buildCacheKey g ident \<longrightarrow>
      cacheTable (snd (ClearCache g r ident s)) key = cacheTable s key) \<and>
   (buildCacheKey g ident \<noteq> ''all'' \<longrightarrow>
      cacheTable (snd (ClearCache g r ident s)) ''all'' = cacheTable s ''all'') \<and>
   ClearAllCache g r s =
     (None, s\<lparr>cacheTable := Map.empty, trace := trace s @ [CacheFlush]\<rparr>) \<and>
   db (snd (ClearAllCache g r s)) = db s \<and>
   store_calls (trace (snd (ClearAllCache g r s))) = store_calls (trace s) \<and>
   (\<forall>key. cacheTable (snd (ClearAllCache g r s)) key = None)"
  by (simp add: ClearCache_def ClearAllCache_def Let_def table_defs store_calls_Cons)

lemma full_key_1: "buildCacheKey user_libs 1 = ''1''"
  by (simp add: buildCacheKey_def fixture_defs)

text \<open>
  The theorem at the cache holding user 1 and the snapshot: clearing id 1 removes the entry
  under \<^verbatim>\<open>"1"\<close> and keeps the snapshot under \<^verbatim>\<open>"all"\<close>; clearing id 7, which has no entry,
  returns nil and keeps both.
\<close>

theorem ClearCache_frame_witness:
  "buildCacheKey user_libs 1 \<noteq> ''all'' \<and>
   fst (ClearCache user_libs users_repo 1 full_world) = None \<and>
   cacheTable (snd (ClearCache user_libs users_repo 1 full_world)) ''1'' = None \<and>
   cacheTable (snd (ClearCache user_libs users_repo 1 full_world)) ''all'' =
     Some (item (Entities [user1, user2]) 0 0) \<and>
   fst (ClearCache user_libs users_repo 7 full_world) = None \<and>
   cacheTable (snd (ClearCache user_libs users_repo 7 full_world)) ''1'' =
     Some (item (Entity user1) 0 0) \<and>
   fst (ClearAllCache user_libs users_repo (cold_world)) = None \<and>
   cacheTable (snd (ClearAllCache user_libs users_repo full_world)) ''all'' = None"
proof -
  have k: "buildCacheKey user_libs 1 \<noteq> ''all''" "''1'' \<noteq> buildCacheKey user_libs 7"
    by (simp_all add: buildCacheKey_def fixture_defs)
  have t: "cacheTable full_world ''all'' = Some (item (Entities [user1, user2]) 0 0)"
    "cacheTable full_world ''1'' = Some (item (Entity user1) 0 0)"
    by (simp_all add: fixture_defs)
  note a = ClearCache_frame [where g = user_libs and r = users_repo and ident = 1 and s = full_world]
  note b = ClearCache_frame [where g = user_libs and r = users_repo and ident = 7 and s = full_world]
  note c = ClearCache_frame [where g = user_libs and r = users_repo and ident = 7 and s = cold_world]
  from a k have "cacheTable (snd (ClearCache user_libs users_repo 1 full_world)) ''all'' =
      cacheTable full_world ''all''"
    by blast
  moreover from a [unfolded full_key_1]
  have "cacheTable (snd (ClearCache user_libs users_repo 1 full_world)) ''1'' = None"
    by blast
  moreover from b k have "cacheTable (snd (ClearCache user_libs users_repo 7 full_world)) ''1'' =
      cacheTable full_world ''1''"
    by blast
  moreover from a have "\<forall>key. cacheTable (snd (ClearAllCache user_libs users_repo full_world)) key = None"
    by blast
  moreover from a have "fst (ClearCache user_libs users_repo 1 full_world) = None"
    by simp
  moreover from b have "fst (ClearCache user_libs users_repo 7 full_world) = None"
    by simp
  moreover from c have "fst (ClearAllCache user_libs users_repo cold_world) = None"
    by simp
  ultimately show ?thesis
    using k t by simp
qed

subsection \<open>Invalidation of the full-collection snapshot\<close>

lemma current_scan_snoc: "current_scan (tr @ [ev]) = scan_after (current_scan tr) ev"
  by (simp add: current_scan_def)

lemma current_scan_append2:
  "current_scan (tr @ [ev1, ev2]) = scan_after (scan_after (current_scan tr) ev1) ev2"
  by (simp add: current_scan_def)

lemma Save_keeps_fresh:
  assumes "snapshot_fresh s"
  shows "snapshot_fresh (snd (Save g r entity s))"
proof -
  obtain query entity' db' where sv: "gorm_Save g entity (db s) = ((query, entity'), db')"
    by (cases "gorm_Save g entity (db s)") auto
  show ?thesis
  proof (cases query)
    case None
    then show ?thesis
      by (simp add: Save_run [OF sv] snapshot_fresh_def)
  next
    case (Some err)
    with assms show ?thesis
      by (auto simp: Save_run [OF sv] snapshot_fresh_def current_scan_snoc split: option.splits)
  qed
qed

lemma Delete_keeps_fresh:
  assumes "snapshot_fresh s"
  shows "snapshot_fresh (snd (Delete g r ident s))"
proof -
  obtain query db' where dl: "gorm_Delete g (where_eq r) ident (db s) = (query, db')"
    by (cases "gorm_Delete g (where_eq r) ident (db s)") auto
  show ?thesis
  proof (cases query)
    case None
    then show ?thesis
      by (simp add: Delete_run [OF dl] snapshot_fresh_def)
  next
    case (Some err)
    with assms show ?thesis
      by (auto simp: Delete_run [OF dl] snapshot_fresh_def current_scan_snoc split: option.splits)
  qed
qed

lemma GetAll_keeps_fresh:
  assumes "snapshot_fresh s"
  shows "snapshot_fresh (snd (GetAll g r s))"
proof (cases "table_Value s ''all''")
  case (Some it)
  with assms show ?thesis
    by (simp add: GetAll_on_hit)
next
  case None
  obtain query db' where fd: "gorm_Find g (db s) = (query, db')"
    by (cases "gorm_Find g (db s)") auto
  show ?thesis
  proof (cases query)
    case (Inl err)
    with assms show ?thesis
      by (auto simp: GetAll_on_miss [OF None fd] snapshot_fresh_def current_scan_snoc split: option.splits)
  next
    case (Inr entities)
    then show ?thesis
      by (simp add: GetAll_on_miss [OF None fd] snapshot_fresh_def current_scan_append2)
  qed
qed

lemma snapshot_fresh_advance [simp]: "snapshot_fresh (advance d s) = snapshot_fresh s"
  by (simp add: snapshot_fresh_def advance_def split: option.splits)

text \<open>
  Claim C6.  A successful \<open>Save\<close> returns nil and leaves no entry under \<^verbatim>\<open>"all"\<close>, whatever
  the cache held and whatever was saved; a successful \<open>Delete\<close> returns nil and leaves no
  entry under \<^verbatim>\<open>"all"\<close> nor under the key of the deleted id.  \<open>Save\<close> and \<open>Delete\<close>, whether
  they succeed or fail, preserve the invariant that an entry under \<^verbatim>\<open>"all"\<close> holds the result
  of a full scan taken after the last successful write or delete, and so does \<open>GetAll\<close>.
  A \<open>GetAll\<close> that follows a successful \<open>Save\<close>, after any lapse of time, calls the database
  for the full collection again.
\<close>

theorem writes_evict_snapshot:
  assumes sv: "gorm_Save g entity (db s) = ((qs, entity'), dbs)"
    and dl: "gorm_Delete g (where_eq r) ident (db s) = (qd, dbd)"
  shows
   "(qs = None \<longrightarrow>
       fst (Save g r entity s) = None \<and>
       cacheTable (snd (Save g r entity s)) ''all'' = None \<and>
       store_calls (trace (snd (GetAll g r (advance d (snd (Save g r entity s)))))) =
         store_calls (trace s) @ [DBSave entity None, DBFind (fst (gorm_Find g dbs))]) \<and>
    (qd = None \<longrightarrow>
       fst (Delete g r ident s) = None \<and>
       cacheTable (snd (Delete g r ident s)) ''all'' = None \<and>
       cacheTable (snd (Delete g r ident s)) (buildCacheKey g ident) = None) \<and>
    (snapshot_fresh s \<longrightarrow>
       snapshot_fresh (snd (Save g r entity s)) \<and>
       snapshot_fresh (snd (Delete g r ident s)) \<and>
       snapshot_fresh (snd (GetAll g r (advance d (snd (Save g r entity s))))))"
proof (intro conjI impI)
  assume ok: "qs = None"
  let ?s1 = "snd (Save g r entity s)"
  from ok show "fst (Save g r entity s) = None"
    by (simp add: Save_run [OF sv])
  from ok show "cacheTable ?s1 ''all'' = None"
    by (simp add: Save_run [OF sv])
  then have miss: "table_Value (advance d ?s1) ''all'' = None"
    by (simp add: table_Value_def cache_Value_def advance_def)
  from ok have st: "db (advance d ?s1) = dbs"
      "store_calls (trace (advance d ?s1)) = store_calls (trace s) @ [DBSave entity None]"
    by (simp_all add: Save_run [OF sv] advance_def store_calls_Cons)
  obtain query db' where fd: "gorm_Find g (db (advance d ?s1)) = (query, db')"
    by (cases "gorm_Find g (db (advance d ?s1))") auto
  then have q: "fst (gorm_Find g dbs) = query"
    by (simp add: st)
  show "store_calls (trace (snd (GetAll g r (advance d ?s1)))) =
         store_calls (trace s) @ [DBSave entity None, DBFind (fst (gorm_Find g dbs))]"
    unfolding q GetAll_on_miss [OF miss fd]
    by (cases query) (simp_all add: st store_calls_Cons)
next
  assume ok: "qd = None"
  then show "fst (Delete g r ident s) = None"
    and "cacheTable (snd (Delete g r ident s)) ''all'' = None"
    and "cacheTable (snd (Delete g r ident s)) (buildCacheKey g ident) = None"
    by (simp_all add: Delete_run [OF dl])
next
  assume inv: "snapshot_fresh s"
  then show "snapshot_fresh (snd (Save g r entity s))"
    by (rule Save_keeps_fresh)
  then show "snapshot_fresh (snd (GetAll g r (advance d (snd (Save g r entity s)))))"
    by (simp add: GetAll_keeps_fresh)
  from inv show "snapshot_fresh (snd (Delete g r ident s))"
    by (rule Delete_keeps_fresh)
qed

lemma listed_world_eq:
  "listed_world =
     cold_world\<lparr>cacheTable := [''all'' \<mapsto> item (Entities [user1, user2]) 600000000000 5],
                trace := [DBFind (Inr [user1, user2]),
                          CacheAdd ''all'' 600000000000 (Entities [user1, user2])]\<rparr>"
  unfolding listed_world_def by (simp add: run_defs)

lemma listed_Save:
  "gorm_Save user_libs user2 (db listed_world) = ((None, user2), db listed_world)"
  unfolding listed_world_eq by (simp add: fixture_defs)

lemma listed_Delete:
  "gorm_Delete user_libs cond 1 (db listed_world) = (None, \<lparr>rows = [user2], fault = None\<rparr>)"
  unfolding listed_world_eq by (simp add: fixture_defs)

lemma listed_fresh: "snapshot_fresh listed_world"
  unfolding listed_world_eq
  by (simp add: snapshot_fresh_def current_scan_def fixture_defs)

lemma listed_facts:
  "cacheTable listed_world ''all'' = Some (item (Entities [user1, user2]) 600000000000 5)"
  "store_calls (trace listed_world) = [DBFind (Inr [user1, user2])]"
  "fst (gorm_Find user_libs (db listed_world)) = Inr [user1, user2]"
  unfolding listed_world_eq by (simp_all add: fixture_defs store_calls_Cons)

text \<open>
  The theorem at the world in which \<open>GetAll\<close> has cached the two rows: saving user 2 again,
  which leaves the table as it is, evicts the snapshot, and the \<open>GetAll\<close> that follows
  reads the same two rows from the database once more; deleting id 1 evicts the snapshot
  too; the invariant holds before and after.
\<close>

theorem writes_evict_snapshot_witness:
  "gorm_Save user_libs user2 (db listed_world) = ((None, user2), db listed_world) \<and>
   gorm_Delete user_libs (where_eq users_repo) 1 (db listed_world) =
     (None, \<lparr>rows = [user2], fault = None\<rparr>) \<and>
   snapshot_fresh listed_world \<and>
   cacheTable listed_world ''all'' = Some (item (Entities [user1, user2]) 600000000000 5) \<and>
   fst (Save user_libs users_repo user2 listed_world) = None \<and>
   cacheTable (snd (Save user_libs users_repo user2 listed_world)) ''all'' = None \<and>
   store_calls (trace (snd (GetAll user_libs users_repo
       (advance 1 (snd (Save user_libs users_repo user2 listed_world)))))) =
     [DBFind (Inr [user1, user2]), DBSave user2 None, DBFind (Inr [user1, user2])] \<and>
   fst (Delete user_libs users_repo 1 listed_world) = None \<and>
   cacheTable (snd (Delete user_libs users_repo 1 listed_world)) ''all'' = None \<and>
   snapshot_fresh (snd (Save user_libs users_repo user2 listed_world)) \<and>
   snapshot_fresh (snd (Delete user_libs users_repo 1 listed_world)) \<and>
   snapshot_fresh (snd (GetAll user_libs users_repo
       (advance 1 (snd (Save user_libs users_repo user2 listed_world)))))"
proof -
  note w = writes_evict_snapshot [OF listed_Save listed_Delete, where r = users_repo and d = 1]
  from w have
    "fst (Save user_libs users_repo user2 listed_world) = None"
    "cacheTable (snd (Save user_libs users_repo user2 listed_world)) ''all'' = None"
    "store_calls (trace (snd (GetAll user_libs users_repo
         (advance 1 (snd (Save user_libs users_repo user2 listed_world)))))) =
       store_calls (trace listed_world) @
         [DBSave user2 None, DBFind (fst (gorm_Find user_libs (db listed_world)))]"
    "fst (Delete user_libs users_repo 1 listed_world) = None"
    "cacheTable (snd (Delete user_libs users_repo 1 listed_world)) ''all'' = None"
    by blast+
  moreover from w listed_fresh have
    "snapshot_fresh (snd (Save user_libs users_repo user2 listed_world))"
    "snapshot_fresh (snd (Delete user_libs users_repo 1 listed_world))"
    "snapshot_fresh (snd (GetAll user_libs users_repo
         (advance 1 (snd (Save user_libs users_repo user2 listed_world)))))"
    by blast+
  ultimately show ?thesis
    using listed_Save listed_Delete listed_fresh listed_facts by simp
qed

subsection \<open>\<^verbatim>\<open>BatchGet\<close>\<close>

lemma batch_lookup_typed:
  "\<forall>i\<in>set ids. \<not> holds_collection g s i \<Longrightarrow>
     batch_lookup g s ids result uncachedIDs =
       Some (result ++ (cached_entity g s |` set ids), uncachedIDs @ uncached g s ids)"
proof (induction ids arbitrary: result uncachedIDs)
  case Nil
  then show ?case by (simp add: uncached_def)
next
  case (Cons i ids)
  then have rest: "\<forall>i\<in>set ids. \<not> holds_collection g s i" by simp
  show ?case
  proof (cases "table_Value s (buildCacheKey g i)")
    case None
    then have "cached_entity g s i = None"
      by (simp add: cached_entity_def)
    then have "result ++ (cached_entity g s |` set (i # ids)) =
        result ++ (cached_entity g s |` set ids)"
      by (auto simp: map_add_def restrict_map_def fun_eq_iff split: option.splits)
    with None Cons.IH [OF rest] show ?thesis
      by (simp add: uncached_def)
  next
    case (Some it)
    from Cons.prems Some have typed: "\<forall>es. data it \<noteq> Entities es"
      by (auto simp: holds_collection_def split: cache_data.splits)
    show ?thesis
    proof (cases "data it")
      case NotFound
      with Some have "cached_entity g s i = None"
        by (simp add: cached_entity_def)
      then have "result ++ (cached_entity g s |` set (i # ids)) =
          result ++ (cached_entity g s |` set ids)"
        by (auto simp: map_add_def restrict_map_def fun_eq_iff split: option.splits)
      with Some NotFound Cons.IH [OF rest] show ?thesis
        by (simp add: uncached_def)
    next
      case (Entity e)
      with Some have "cached_entity g s i = Some e"
        by (simp add: cached_entity_def)
      then have eq: "result(i \<mapsto> e) ++ (cached_entity g s |` set ids) =
          result ++ (cached_entity g s |` set (i # ids))"
        by (auto simp: map_add_def restrict_map_def fun_eq_iff split: option.splits)
      from Some have unc: "uncached g s (i # ids) = uncached g s ids"
        by (simp add: uncached_def)
      have "batch_lookup g s (i # ids) result uncachedIDs =
          batch_lookup g s ids (result(i \<mapsto> e)) uncachedIDs"
        using Some Entity by simp
      also have "\<dots> = Some (result(i \<mapsto> e) ++ (cached_entity g s |` set ids),
          uncachedIDs @ uncached g s ids)"
        by (rule Cons.IH [OF rest])
      finally show ?thesis
        unfolding eq unc .
    next
      case (Entities es)
      with typed show ?thesis by simp
    qed
  qed
qed


lemma batch_store_db: "db (batch_store r entities s) = db s"
  by (induction entities arbitrary: s) (simp_all add: table_Add_def)


lemma BatchGet_typed:
  assumes typed: "\<forall>i\<in>set ids. \<not> holds_collection g s i"
    and q: "gorm_Find_in g (where_in r) (uncached g s ids) (db s) = (query, db')"
  shows "BatchGet g r ids s =
     (if uncached g s ids = [] then (Inr (cached_entity g s |` set ids), s)
      else case query of
             Inl err \<Rightarrow>
               (Inl (Err err),
                s\<lparr>db := db', trace := trace s @ [DBFindIn (uncached g s ids) query]\<rparr>)
           | Inr entities \<Rightarrow>
               (Inr (cached_entity g s |` set ids),
                batch_store r entities
                  (s\<lparr>db := db', trace := trace s @ [DBFindIn (uncached g s ids) query]\<rparr>)))"
  using q
  by (simp add: BatchGet_def batch_lookup_typed [OF typed] Let_def db_called_def
      split: sum.splits)

text \<open>
  Claim C10.  When every requested id has a live cache entry holding an entity or the
  negative marker, \<open>BatchGet\<close> leaves the whole world as it was (no database call) and
  returns, with a nil error, the mapping that sends exactly the requested ids whose entry
  holds an entity to that entity.  For the empty list it returns the empty mapping.
\<close>

theorem BatchGet_all_cached:
  assumes hits: "\<forall>i\<in>set ids. \<exists>it. table_Value s (buildCacheKey g i) = Some it \<and>
                   (data it = NotFound \<or> (\<exists>e. data it = Entity e))"
  shows
   "BatchGet g r ids s = (Inr (cached_entity g s |` set ids), s) \<and>
    (\<forall>i e. (cached_entity g s |` set ids) i = Some e \<longleftrightarrow>
        i \<in> set ids \<and> (\<exists>it. table_Value s (buildCacheKey g i) = Some it \<and> data it = Entity e)) \<and>
    BatchGet g r [] s = (Inr Map.empty, s)"
proof (intro conjI allI)
  from hits have typed: "\<forall>i\<in>set ids. \<not> holds_collection g s i"
    by (fastforce simp: holds_collection_def)
  from hits have none: "uncached g s ids = []"
    by (auto simp: uncached_def filter_empty_conv)
  obtain query db' where "gorm_Find_in g (where_in r) (uncached g s ids) (db s) = (query, db')"
    by (cases "gorm_Find_in g (where_in r) (uncached g s ids) (db s)") auto
  from BatchGet_typed [OF typed this] none
  show "BatchGet g r ids s = (Inr (cached_entity g s |` set ids), s)"
    by simp
  show "BatchGet g r [] s = (Inr Map.empty, s)"
    by (simp add: BatchGet_def)
  show "(cached_entity g s |` set ids) i = Some e \<longleftrightarrow>
        i \<in> set ids \<and> (\<exists>it. table_Value s (buildCacheKey g i) = Some it \<and> data it = Entity e)"
    for i e
    by (auto simp: restrict_map_def cached_entity_def split: option.splits cache_data.splits)
qed

lemma warm_hits:
  "\<forall>i\<in>set [1, 7, 1]. \<exists>it. table_Value warm_world (buildCacheKey user_libs i) = Some it \<and>
      (data it = NotFound \<or> (\<exists>e. data it = Entity e))"
  by (simp add: table_Value_def cache_Value_def live_def buildCacheKey_def fixture_defs)

text \<open>
  The theorem at the cache holding user 1 and the marker for id 7, for the ids 1, 7, 1:
  the mapping has user 1 at 1 and nothing at 7, and the world is unchanged.
\<close>

theorem BatchGet_all_cached_witness:
  "table_Value warm_world (buildCacheKey user_libs 1) = Some (item (Entity user1) 0 0) \<and>
   table_Value warm_world (buildCacheKey user_libs 7) = Some (item NotFound 0 0) \<and>
   BatchGet user_libs users_repo [1, 7, 1] warm_world =
     (Inr (cached_entity user_libs warm_world |` set [1, 7, 1]), warm_world) \<and>
   (cached_entity user_libs warm_world |` set [1, 7, 1]) 1 = Some user1 \<and>
   (cached_entity user_libs warm_world |` set [1, 7, 1]) 7 = None"
proof -
  have "(cached_entity user_libs warm_world |` set [1, 7, 1]) 1 = Some user1"
    "(cached_entity user_libs warm_world |` set [1, 7, 1]) 7 = None"
    by (simp_all add: cached_entity_def table_Value_def cache_Value_def live_def
        buildCacheKey_def fixture_defs)
  moreover have
    "table_Value warm_world (buildCacheKey user_libs 1) = Some (item (Entity user1) 0 0)"
    "table_Value warm_world (buildCacheKey user_libs 7) = Some (item NotFound 0 0)"
    by (simp_all add: table_Value_def cache_Value_def live_def buildCacheKey_def fixture_defs)
  ultimately show ?thesis
    using BatchGet_all_cached [OF warm_hits, where r = users_repo] by blast
qed










subsection \<open>What \<^verbatim>\<open>buildCacheKeyFromEntity\<close> and the second loop of \<^verbatim>\<open>BatchGet\<close> do\<close>

text \<open>
  Claim C1 does not hold of the code.  Saving user 3 through the repository of the examples
  writes the cache entry under the empty key, not under \<^verbatim>\<open>"3"\<close>: the key of id 3 is still
  a miss afterwards, and the \<open>GetByID\<close> that follows calls the database.
\<close>

theorem Save_caches_under_empty_key:
  "Save user_libs users_repo user3 cold_world =
     (None,
      cold_world\<lparr>cacheTable := ['''' \<mapsto> item (Entity user3) 600000000000 5],
                 db := \<lparr>rows = [user1, user2, user3], fault = None\<rparr>,
                 trace := [DBSave user3 None, CacheAdd '''' 600000000000 (Entity user3),
                           CacheDelete ''all'']\<rparr>) \<and>
   buildCacheKey user_libs (ID user3) = ''3'' \<and>
   table_Value (snd (Save user_libs users_repo user3 cold_world)) ''3'' = None \<and>
   store_calls (trace (snd (GetByID user_libs users_repo 3
       (snd (Save user_libs users_repo user3 cold_world))))) =
     [DBSave user3 None, DBFirst 3 (Inr user3)]"
  by (simp add: run_defs store_calls_Cons)

text \<open>
  Claim C2 does not hold of the code.  For the ids 1, 2, 3 with user 1 cached, user 2 only
  in the table and no user 3, \<open>BatchGet\<close> issues the one batched query for 2 and 3, but the
  mapping it returns holds user 1 only, and user 2 is cached under the empty key, not
  under \<^verbatim>\<open>"2"\<close>.
\<close>

theorem BatchGet_drops_fetched:
  "BatchGet user_libs users_repo [1, 2, 3] partial_world =
     (Inr [1 \<mapsto> user1],
      partial_world\<lparr>cacheTable := [''1'' \<mapsto> item (Entity user1) 0 0,
                                    '''' \<mapsto> item (Entity user2) 600000000000 5],
                    trace := [DBFindIn [2, 3] (Inr [user2]),
                              CacheAdd '''' 600000000000 (Entity user2)]\<rparr>) \<and>
   [1 \<mapsto> user1] (2::nat) = None \<and>
   buildCacheKey user_libs (ID user2) = ''2''"
  by (simp add: run_defs)

end
